theory Spec2Isabelle
  imports Complex_Main
begin

section \<open>System resource monitor: data model\<close>

text \<open>
  The development follows \<^verbatim>\<open>src/monitor.py\<close>. Python's unbounded integers (the
  cumulative byte counters of psutil) are \<open>int\<close>. Python floats (clock readings,
  percentages, temperatures and the derived rates) are idealised as \<open>real\<close>: the
  division of a byte delta by \<open>1024 * 1024\<close> is a division by a power of two, which
  keeps the sign and is exact for every delta below \<open>2 ^ 53\<close>.
\<close>

datatype error = AttributeError | ValueError | IndexError | ZeroDivisionError | OSError

text \<open>The two psutil counter tuples, with the fields the monitor reads.\<close>

record sdiskio =
  read_bytes :: int
  write_bytes :: int

record snetio =
  bytes_sent :: int
  bytes_recv :: int

text \<open>One entry of \<^verbatim>\<open>GPUtil.getGPUs()\<close>.\<close>

record gpu_entry =
  load :: real
  temperature :: real
  memoryUtil :: real

text \<open>
  What the platform answers during one call of \<^verbatim>\<open>collect_data\<close>. A counter call
  that returns \<^verbatim>\<open>None\<close> (psutil does so on a machine without disks, or without
  network interfaces) is \<open>None\<close>. For the temperature and GPU calls, which the
  source wraps in \<^verbatim>\<open>try/except\<close>, \<open>None\<close> stands for a raised exception; the
  temperature dictionary is an association list in insertion order, each sensor with
  the \<^verbatim>\<open>current\<close> values of its entries.
\<close>

record reading =
  time_time :: real
  psutil_cpu_percent :: real
  psutil_virtual_memory_percent :: real
  psutil_disk_io_counters :: "sdiskio option"
  psutil_net_io_counters :: "snetio option"
  psutil_sensors_temperatures :: "(string \<times> real list) list option"
  GPUtil_getGPUs :: "gpu_entry list option"

text \<open>The fields of \<^verbatim>\<open>SystemMonitor\<close>.\<close>

record monitor =
  duration :: real
  interval :: real
  timestamps :: "real list"
  cpu_percent :: "real list"
  memory_percent :: "real list"
  disk_read :: "real list"
  disk_write :: "real list"
  network_sent :: "real list"
  network_recv :: "real list"
  cpu_temp :: "real list"
  gpu_util :: "real list"
  gpu_temp :: "real list"
  gpu_memory :: "real list"
  last_net :: "snetio option"
  last_disk :: "sdiskio option"
  start_time :: real

text \<open>
  \<^verbatim>\<open>SystemMonitor.__init__\<close>: every series starts empty, and the first counter
  snapshots are taken here, before any tick.
\<close>

definition init :: "real \<Rightarrow> snetio option \<Rightarrow> sdiskio option \<Rightarrow> real \<Rightarrow> monitor" where
  "init dur net0 disk0 t0 =
     \<lparr>duration = dur, interval = 1,
      timestamps = [], cpu_percent = [], memory_percent = [],
      disk_read = [], disk_write = [], network_sent = [], network_recv = [],
      cpu_temp = [], gpu_util = [], gpu_temp = [], gpu_memory = [],
      last_net = net0, last_disk = disk0, start_time = t0\<rparr>"

section \<open>Reading the optional sensors\<close>

text \<open>
  \<^verbatim>\<open>get_cpu_temp\<close>: the first entry of \<^verbatim>\<open>coretemp\<close>, else of \<^verbatim>\<open>cpu_thermal\<close>, else of
  the first sensor of a non-empty dictionary. Indexing an empty entry list raises
  inside the \<^verbatim>\<open>try\<close>, and the bare \<^verbatim>\<open>except\<close> turns every exception into
  \<^verbatim>\<open>None\<close>.
\<close>

definition first_current :: "real list \<Rightarrow> real option" where
  "first_current entries = (case entries of [] \<Rightarrow> None | e # _ \<Rightarrow> Some e)"

definition get_cpu_temp :: "(string \<times> real list) list option \<Rightarrow> real option" where
  "get_cpu_temp sensors =
     (case sensors of
        None \<Rightarrow> None
      | Some temps \<Rightarrow>
          (case map_of temps ''coretemp'' of
             Some entries \<Rightarrow> first_current entries
           | None \<Rightarrow>
               (case map_of temps ''cpu_thermal'' of
                  Some entries \<Rightarrow> first_current entries
                | None \<Rightarrow>
                    (case temps of
                       [] \<Rightarrow> None
                     | (_, entries) # _ \<Rightarrow> first_current entries))))"

text \<open>
  \<^verbatim>\<open>get_gpu_info\<close>: without the GPU backend, or on an exception, or with no GPU, the
  triple \<^verbatim>\<open>(None, None, None)\<close>; else the first GPU's load and memory use as
  percentages and its temperature.
\<close>

definition get_gpu_info :: "bool \<Rightarrow> gpu_entry list option \<Rightarrow> real option \<times> real option \<times> real option" where
  "get_gpu_info GPU_AVAILABLE gpus_reply =
     (if \<not> GPU_AVAILABLE then (None, None, None)
      else (case gpus_reply of
              None \<Rightarrow> (None, None, None)
            | Some [] \<Rightarrow> (None, None, None)
            | Some (gpu # _) \<Rightarrow>
                (Some (load gpu * 100), Some (temperature gpu), Some (memoryUtil gpu * 100))))"

text \<open>
  The expression \<^verbatim>\<open>x if x else 0\<close>: Python takes \<^verbatim>\<open>None\<close> and the number zero as
  false, so both are stored as \<open>0\<close>.
\<close>

definition if_else_0 :: "real option \<Rightarrow> real" where
  "if_else_0 v = (case v of None \<Rightarrow> 0 | Some x \<Rightarrow> (if x \<noteq> 0 then x else 0))"

section \<open>The per-tick collection step\<close>

text \<open>
  \<^verbatim>\<open>collect_data\<close> appends to the series in the order of the source. The network
  block reads \<^verbatim>\<open>net.bytes_sent\<close> and \<^verbatim>\<open>self.last_net.bytes_sent\<close> with no check, so
  a missing reply (or a missing first snapshot) raises \<^verbatim>\<open>AttributeError\<close> there; the
  appends made before it stay, as Python's mutation does, so the error carries the
  object as it is left.
\<close>

definition collect_data :: "bool \<Rightarrow> monitor \<Rightarrow> reading \<Rightarrow> (error \<times> monitor) + monitor" where
  "collect_data GPU_AVAILABLE self0 r =
     (let current_time = time_time r - start_time self0;
          self1 = self0\<lparr>timestamps := timestamps self0 @ [current_time]\<rparr>;
          self2 = self1\<lparr>cpu_percent := cpu_percent self1 @ [psutil_cpu_percent r]\<rparr>;
          self3 = self2\<lparr>memory_percent :=
                    memory_percent self2 @ [psutil_virtual_memory_percent r]\<rparr>;
          self4 =
            (case (psutil_disk_io_counters r, last_disk self3) of
               (Some disk, Some last_d) \<Rightarrow>
                 self3\<lparr>disk_read := disk_read self3 @
                          [real_of_int (read_bytes disk - read_bytes last_d) / (1024 * 1024)],
                       disk_write := disk_write self3 @
                          [real_of_int (write_bytes disk - write_bytes last_d) / (1024 * 1024)],
                       last_disk := Some disk\<rparr>
             | _ \<Rightarrow>
                 self3\<lparr>disk_read := disk_read self3 @ [0],
                       disk_write := disk_write self3 @ [0]\<rparr>)
      in (case (psutil_net_io_counters r, last_net self4) of
            (Some net, Some last_n) \<Rightarrow>
              (let self5 =
                     self4\<lparr>network_sent := network_sent self4 @
                              [real_of_int (bytes_sent net - bytes_sent last_n) / (1024 * 1024)],
                           network_recv := network_recv self4 @
                              [real_of_int (bytes_recv net - bytes_recv last_n) / (1024 * 1024)],
                           last_net := Some net\<rparr>;
                   temp = get_cpu_temp (psutil_sensors_temperatures r);
                   self6 = self5\<lparr>cpu_temp := cpu_temp self5 @ [if_else_0 temp]\<rparr>;
                   (gpu_util_now, gpu_temp_now, gpu_mem_now) =
                     get_gpu_info GPU_AVAILABLE (GPUtil_getGPUs r)
               in Inr (self6\<lparr>gpu_util := gpu_util self6 @ [if_else_0 gpu_util_now],
                             gpu_temp := gpu_temp self6 @ [if_else_0 gpu_temp_now],
                             gpu_memory := gpu_memory self6 @ [if_else_0 gpu_mem_now]\<rparr>))
          | _ \<Rightarrow> Inl (AttributeError, self4)))"

text \<open>What a call leaves behind, whether it returned or raised.\<close>

definition after :: "(error \<times> 'a) + 'a \<Rightarrow> 'a" where
  "after res = (case res of Inl (_, x) \<Rightarrow> x | Inr x \<Rightarrow> x)"

text \<open>All eleven series have the length \<open>n\<close>.\<close>

definition series_lengths :: "monitor \<Rightarrow> nat \<Rightarrow> bool" where
  "series_lengths self n \<longleftrightarrow>
     length (timestamps self) = n \<and> length (cpu_percent self) = n \<and>
     length (memory_percent self) = n \<and> length (disk_read self) = n \<and>
     length (disk_write self) = n \<and> length (network_sent self) = n \<and>
     length (network_recv self) = n \<and> length (cpu_temp self) = n \<and>
     length (gpu_util self) = n \<and> length (gpu_temp self) = n \<and>
     length (gpu_memory self) = n"

text \<open>A list has grown by exactly one element at its end, the rest unchanged.\<close>

definition grown_by_one :: "'a list \<Rightarrow> 'a list \<Rightarrow> bool" where
  "grown_by_one old new \<longleftrightarrow> length new = Suc (length old) \<and> take (length old) new = old"

section \<open>The report\<close>

text \<open>
  The console is the list of the messages printed, and the file system maps the names
  of the files that exist to what they hold. The table cells hold the numbers that
  the source formats with \<^verbatim>\<open>:.2f\<close> and \<^verbatim>\<open>:.1f\<close>; a resource stands for its
  label.
\<close>

datatype resource =
  CPU_Usage | Memory_Usage | Disk_Read | Disk_Write | Network_Sent | Network_Recv
  | CPU_Temperature | GPU_Utilization | GPU_Memory | GPU_Temperature

datatype summary_row = Summary_Header | Summary_Stats resource real real real real

datatype detail_row =
  Detail_Header | Detail_Record real real real real real real real | Detail_Ellipsis

datatype file_content = Chart_Image | Document "summary_row list" "detail_row list"

datatype notice =
  Starting | Progress nat | MonitoringInterrupted | DataCollectionComplete
  | NoDataCollected | GeneratingReport string | ReportGenerated string

record world =
  files :: "string \<rightharpoonup> file_content"
  console :: "notice list"

text \<open>
  The numpy reductions. \<^verbatim>\<open>np.min\<close> and \<^verbatim>\<open>np.max\<close> raise \<^verbatim>\<open>ValueError\<close> on an
  empty list; \<^verbatim>\<open>np.mean\<close> and \<^verbatim>\<open>np.std\<close> only warn there (and give nan), but in
  every row of the table \<^verbatim>\<open>np.min\<close> is evaluated on the same list right after the
  mean, so the row raises before an empty mean is used.
\<close>

definition np_mean :: "real list \<Rightarrow> real" where
  "np_mean xs = sum_list xs / real (length xs)"

definition np_min :: "real list \<Rightarrow> error + real" where
  "np_min xs = (case xs of [] \<Rightarrow> Inl ValueError | x # ys \<Rightarrow> Inr (fold min ys x))"

definition np_max :: "real list \<Rightarrow> error + real" where
  "np_max xs = (case xs of [] \<Rightarrow> Inl ValueError | x # ys \<Rightarrow> Inr (fold max ys x))"

definition np_std :: "real list \<Rightarrow> real" where
  "np_std xs = sqrt (np_mean (map (\<lambda>x. (x - np_mean xs)\<^sup>2) xs))"

definition stats_row :: "resource \<Rightarrow> real list \<Rightarrow> error + summary_row" where
  "stats_row res xs =
     (case np_min xs of
        Inl e \<Rightarrow> Inl e
      | Inr lo \<Rightarrow>
          (case np_max xs of
             Inl e \<Rightarrow> Inl e
           | Inr hi \<Rightarrow> Inr (Summary_Stats res (np_mean xs) lo hi (np_std xs))))"

text \<open>Building a list of rows stops at the first row that raises.\<close>

fun collect_rows :: "('a \<Rightarrow> error + 'b) \<Rightarrow> 'a list \<Rightarrow> error + 'b list" where
  "collect_rows f [] = Inr []"
| "collect_rows f (x # xs) =
     (case f x of
        Inl e \<Rightarrow> Inl e
      | Inr row \<Rightarrow>
          (case collect_rows f xs of Inl e \<Rightarrow> Inl e | Inr rows \<Rightarrow> Inr (row # rows)))"

text \<open>\<^verbatim>\<open>any(t > 0 for t in xs)\<close>.\<close>

definition any_positive :: "real list \<Rightarrow> bool" where
  "any_positive xs = list_ex (\<lambda>t. 0 < t) xs"

text \<open>
  The summary table of \<^verbatim>\<open>generate_pdf_report\<close>: six rows always, the temperature
  row behind \<^verbatim>\<open>any(t > 0 for t in self.cpu_temp)\<close>, and the three GPU rows behind
  \<^verbatim>\<open>GPU_AVAILABLE and any(g > 0 for g in self.gpu_util)\<close>.
\<close>

definition summary_columns :: "bool \<Rightarrow> monitor \<Rightarrow> (resource \<times> real list) list" where
  "summary_columns GPU_AVAILABLE self =
     [(CPU_Usage, cpu_percent self), (Memory_Usage, memory_percent self),
      (Disk_Read, disk_read self), (Disk_Write, disk_write self),
      (Network_Sent, network_sent self), (Network_Recv, network_recv self)]
     @ (if any_positive (cpu_temp self) then [(CPU_Temperature, cpu_temp self)] else [])
     @ (if GPU_AVAILABLE \<and> any_positive (gpu_util self)
        then [(GPU_Utilization, gpu_util self), (GPU_Memory, gpu_memory self),
              (GPU_Temperature, gpu_temp self)]
        else [])"

definition summary_data :: "bool \<Rightarrow> monitor \<Rightarrow> error + summary_row list" where
  "summary_data GPU_AVAILABLE self =
     (case collect_rows (\<lambda>(res, xs). stats_row res xs) (summary_columns GPU_AVAILABLE self) of
        Inl e \<Rightarrow> Inl e
      | Inr rows \<Rightarrow> Inr (Summary_Header # rows))"

fun row_resources :: "summary_row list \<Rightarrow> resource list" where
  "row_resources [] = []"
| "row_resources (Summary_Header # rows) = row_resources rows"
| "row_resources (Summary_Stats res _ _ _ _ # rows) = res # row_resources rows"

text \<open>
  One line of the detailed table: the seven series indexed at \<open>i\<close>. An index beyond
  the end of a list raises \<^verbatim>\<open>IndexError\<close>.
\<close>

definition record_at :: "monitor \<Rightarrow> nat \<Rightarrow> detail_row" where
  "record_at self i =
     Detail_Record (timestamps self ! i) (cpu_percent self ! i) (memory_percent self ! i)
       (disk_read self ! i) (disk_write self ! i) (network_sent self ! i)
       (network_recv self ! i)"

definition detail_record :: "monitor \<Rightarrow> nat \<Rightarrow> error + detail_row" where
  "detail_record self i =
     (if i < length (timestamps self) \<and> i < length (cpu_percent self) \<and>
         i < length (memory_percent self) \<and> i < length (disk_read self) \<and>
         i < length (disk_write self) \<and> i < length (network_sent self) \<and>
         i < length (network_recv self)
      then Inr (record_at self i)
      else Inl IndexError)"

text \<open>
  The two index ranges of the detailed table, \<^verbatim>\<open>range(min(10, n))\<close> and
  \<^verbatim>\<open>range(max(10, n - 10), n)\<close>. The second is only evaluated for \<open>n > 20\<close>; below
  \<open>10\<close> Python's \<open>n - 10\<close> is negative and the truncated difference is \<open>0\<close>, and the
  maximum with \<open>10\<close> is \<open>10\<close> either way.
\<close>

definition first_records :: "nat \<Rightarrow> nat list" where
  "first_records n = [0..<min 10 n]"

definition last_records :: "nat \<Rightarrow> nat list" where
  "last_records n = [max 10 (n - 10)..<n]"

definition detailed_data :: "monitor \<Rightarrow> error + detail_row list" where
  "detailed_data self =
     (let n = length (timestamps self) in
      case collect_rows (detail_record self) (first_records n) of
        Inl e \<Rightarrow> Inl e
      | Inr leading \<Rightarrow>
          (if 20 < n then
             (case collect_rows (detail_record self) (last_records n) of
                Inl e \<Rightarrow> Inl e
              | Inr trailing \<Rightarrow> Inr (Detail_Header # leading @ [Detail_Ellipsis] @ trailing))
           else Inr (Detail_Header # leading)))"

text \<open>
  What the libraries do during one report: drawing and saving the charts
  (matplotlib) and writing the document (\<^verbatim>\<open>doc.build\<close>) either succeed or raise.
\<close>

record report_env =
  savefig_raises :: "error option"
  build_raises :: "error option"

definition graph_file :: string where
  "graph_file = ''temp_graphs.png''"

text \<open>
  \<^verbatim>\<open>generate_pdf_report\<close>, in the order of the source: the summary table, the charts
  saved to the temporary image, the detailed table, \<^verbatim>\<open>doc.build\<close>, and then the
  removal of the temporary image. No \<^verbatim>\<open>try\<close> surrounds any of it, so an exception
  leaves the function at once, with the files as they are.
\<close>

definition generate_pdf_report ::
  "bool \<Rightarrow> report_env \<Rightarrow> monitor \<Rightarrow> string \<Rightarrow> world \<Rightarrow> (error \<times> world) + world" where
  "generate_pdf_report GPU_AVAILABLE env self filename w0 =
     (let w1 = w0\<lparr>console := console w0 @ [GeneratingReport filename]\<rparr> in
      case summary_data GPU_AVAILABLE self of
        Inl e \<Rightarrow> Inl (e, w1)
      | Inr summary \<Rightarrow>
          (case savefig_raises env of
             Some e \<Rightarrow> Inl (e, w1)
           | None \<Rightarrow>
               (let w2 = w1\<lparr>files := (files w1)(graph_file \<mapsto> Chart_Image)\<rparr> in
                case detailed_data self of
                  Inl e \<Rightarrow> Inl (e, w2)
                | Inr detail \<Rightarrow>
                    (case build_raises env of
                       Some e \<Rightarrow> Inl (e, w2)
                     | None \<Rightarrow>
                         (let w3 = w2\<lparr>files := (files w2)(filename \<mapsto> Document summary detail)\<rparr>;
                              w4 = (if graph_file \<in> dom (files w3)
                                    then w3\<lparr>files := (files w3)(graph_file := None)\<rparr>
                                    else w3)
                          in Inr (w4\<lparr>console := console w4 @ [ReportGenerated filename]\<rparr>))))))"

section \<open>The collection loop\<close>

text \<open>
  \<^verbatim>\<open>start\<close> runs \<^verbatim>\<open>while (time.time() - start_time) < self.duration\<close>. What happens
  around the loop is a list of events: a tick carries the clock read by the loop
  condition, the platform's answers to \<^verbatim>\<open>collect_data\<close>, and the clock read for the
  progress line; \<open>KeyboardInterrupt\<close> is the user's interruption, taken between two
  iterations (during the sleep; an interruption inside \<^verbatim>\<open>collect_data\<close> is not
  modelled). The loop ends only when the clock says so or the user interrupts, so a
  list that ends before either gives no result (\<open>None\<close>). Only \<^verbatim>\<open>KeyboardInterrupt\<close>
  is caught: any other exception leaves \<^verbatim>\<open>start\<close>. The progress line divides by the
  duration, which raises \<^verbatim>\<open>ZeroDivisionError\<close> for a duration of zero.
\<close>

datatype event = Tick real reading real | KeyboardInterrupt

fun collection_loop ::
  "bool \<Rightarrow> real \<Rightarrow> event list \<Rightarrow> monitor \<Rightarrow> nat \<Rightarrow> notice list \<Rightarrow>
     ((error \<times> monitor \<times> notice list) + (monitor \<times> notice list)) option" where
  "collection_loop GPU_AVAILABLE start_t [] self iteration out = None"
| "collection_loop GPU_AVAILABLE start_t (KeyboardInterrupt # _) self iteration out =
     Some (Inr (self, out @ [MonitoringInterrupted]))"
| "collection_loop GPU_AVAILABLE start_t (Tick t r t' # events) self iteration out =
     (if t - start_t < duration self then
        (case collect_data GPU_AVAILABLE self r of
           Inl (e, self') \<Rightarrow> Some (Inl (e, self', out))
         | Inr self' \<Rightarrow>
             (if duration self' = 0 then Some (Inl (ZeroDivisionError, self', out))
              else collection_loop GPU_AVAILABLE start_t events self' (iteration + 1)
                     (out @ [Progress (iteration + 1)])))
      else Some (Inr (self, out)))"

text \<open>
  \<^verbatim>\<open>start\<close>: the loop, then the report when at least one timestamp was stored, else
  the notice that no data was collected.
\<close>

definition start ::
  "bool \<Rightarrow> report_env \<Rightarrow> real \<Rightarrow> event list \<Rightarrow> monitor \<Rightarrow> world \<Rightarrow>
     ((error \<times> monitor \<times> world) + (monitor \<times> world)) option" where
  "start GPU_AVAILABLE env start_t events self w =
     (case collection_loop GPU_AVAILABLE start_t events self 0 (console w @ [Starting]) of
        None \<Rightarrow> None
      | Some (Inl (e, self', out)) \<Rightarrow> Some (Inl (e, self', w\<lparr>console := out\<rparr>))
      | Some (Inr (self', out)) \<Rightarrow>
          (let w1 = w\<lparr>console := out @ [DataCollectionComplete]\<rparr> in
           if 0 < length (timestamps self') then
             (case generate_pdf_report GPU_AVAILABLE env self' ''system_monitor_report.pdf'' w1 of
                Inl (e, w2) \<Rightarrow> Some (Inl (e, self', w2))
              | Inr w2 \<Rightarrow> Some (Inr (self', w2)))
           else Some (Inr (self', w1\<lparr>console := console w1 @ [NoDataCollected]\<rparr>))))"

text \<open>How many samples a run of the loop leaves in the store.\<close>

definition samples_after :: "(error \<times> monitor \<times> 'a) + (monitor \<times> 'a) \<Rightarrow> nat" where
  "samples_after res = length (timestamps (fst (after res)))"

section \<open>The rules as the specification words them\<close>

text \<open>
  The specification's rule for a derived rate,
  \<^verbatim>\<open>max(0, (current - previous) / elapsed_since_last_tick)\<close> converted to MB/s, and
  its fallback sentinel. The definitions of this section follow the specification's
  words, for comparison with the functions of the source.
\<close>

definition spec_rate :: "int \<Rightarrow> int \<Rightarrow> real \<Rightarrow> real" where
  "spec_rate current previous elapsed =
     max 0 (real_of_int (current - previous) / elapsed) / (1024 * 1024)"

definition spec_non_fallback :: "real \<Rightarrow> bool" where
  "spec_non_fallback v \<longleftrightarrow> v \<noteq> 0"

text \<open>The time between the previous sample and this tick, from the stored timestamps.\<close>

definition spec_elapsed_since_last_tick :: "monitor \<Rightarrow> reading \<Rightarrow> real" where
  "spec_elapsed_since_last_tick self r =
     (time_time r - start_time self) - (if timestamps self = [] then 0 else last (timestamps self))"

text \<open>
  The statistics of a column as the specification words them: mean, minimum, maximum
  and (population) standard deviation over every element of the column, none left
  out.
\<close>

definition spec_column_stats :: "resource \<Rightarrow> real list \<Rightarrow> summary_row" where
  "spec_column_stats res xs =
     Summary_Stats res (sum_list xs / real (length xs)) (Min (set xs)) (Max (set xs))
       (sqrt (sum_list (map (\<lambda>x. (x - sum_list xs / real (length xs))\<^sup>2) xs)
              / real (length xs)))"

section \<open>Example inputs\<close>

text \<open>
  A monitor constructed at clock \<open>1000\<close> with all counters at 20 MiB, and some ticks:
  one second later with 10 MiB read, 2 MiB written, 3 MiB sent and 1 MiB received
  (temperature 55, an idle GPU at 45 degrees); a later tick two seconds after the
  first; a tick on which the disk counters restarted from a lower value; a tick on a
  machine without network interfaces.
\<close>

definition MiB :: int where
  "MiB = 1024 * 1024"

definition monitor0 :: monitor where
  "monitor0 =
     init 120 (Some \<lparr>bytes_sent = 20 * MiB, bytes_recv = 20 * MiB\<rparr>)
       (Some \<lparr>read_bytes = 20 * MiB, write_bytes = 20 * MiB\<rparr>) 1000"

definition reading1 :: reading where
  "reading1 =
     \<lparr>time_time = 1001, psutil_cpu_percent = 25, psutil_virtual_memory_percent = 50,
      psutil_disk_io_counters = Some \<lparr>read_bytes = 30 * MiB, write_bytes = 22 * MiB\<rparr>,
      psutil_net_io_counters = Some \<lparr>bytes_sent = 23 * MiB, bytes_recv = 21 * MiB\<rparr>,
      psutil_sensors_temperatures = Some [(''acpitz'', [30]), (''coretemp'', [55, 57])],
      GPUtil_getGPUs = Some [\<lparr>load = 0, temperature = 45, memoryUtil = 1 / 8\<rparr>]\<rparr>"

definition reading2 :: reading where
  "reading2 =
     reading1\<lparr>time_time := 1003,
       psutil_disk_io_counters := Some \<lparr>read_bytes = 32 * MiB, write_bytes = 22 * MiB\<rparr>\<rparr>"

definition reading_reset :: reading where
  "reading_reset =
     reading1\<lparr>psutil_disk_io_counters := Some \<lparr>read_bytes = 10 * MiB, write_bytes = 22 * MiB\<rparr>\<rparr>"

definition reading_no_net :: reading where
  "reading_no_net = reading1\<lparr>psutil_net_io_counters := None\<rparr>"

definition reading_no_disk :: reading where
  "reading_no_disk = reading1\<lparr>psutil_disk_io_counters := None\<rparr>"


definition reading_cold :: reading where
  "reading_cold = reading1\<lparr>psutil_sensors_temperatures := Some [(''coretemp'', [- 5])]\<rparr>"

definition reading_gpu_busy :: reading where
  "reading_gpu_busy =
     reading1\<lparr>GPUtil_getGPUs := Some [\<lparr>load = 1 / 2, temperature = 60, memoryUtil = 1 / 4\<rparr>]\<rparr>"

definition reading_bare :: reading where
  "reading_bare = reading1\<lparr>psutil_sensors_temperatures := None, GPUtil_getGPUs := None\<rparr>"

text \<open>The stores after one tick on each of these.\<close>

definition store1 :: monitor where
  "store1 = after (collect_data True monitor0 reading1)"

definition store_cold :: monitor where
  "store_cold = after (collect_data True monitor0 reading_cold)"

definition store_gpu_busy :: monitor where
  "store_gpu_busy = after (collect_data True monitor0 reading_gpu_busy)"

definition store_bare :: monitor where
  "store_bare = after (collect_data True monitor0 reading_bare)"

definition failing_build :: report_env where
  "failing_build = \<lparr>savefig_raises = None, build_raises = Some OSError\<rparr>"

definition working_build :: report_env where
  "working_build = \<lparr>savefig_raises = None, build_raises = None\<rparr>"

definition world0 :: world where
  "world0 = \<lparr>files = Map.empty, console = []\<rparr>"

section \<open>Properties of the collection step\<close>

lemmas example_defs = monitor0_def reading1_def reading2_def reading_reset_def
  reading_no_net_def reading_no_disk_def init_def MiB_def

lemmas collect_defs = collect_data_def Let_def after_def get_cpu_temp_def first_current_def
  get_gpu_info_def if_else_0_def

lemma grown_by_one_append [simp]: "grown_by_one xs (xs @ [x])"
  by (simp add: grown_by_one_def)

lemma collect_data_Inr:
  assumes "collect_data G self r = Inr self'"
  obtains n prev_n where "psutil_net_io_counters r = Some n" and "last_net self = Some prev_n"
  using assms by (auto simp: collect_data_def Let_def split: option.splits prod.splits)

lemma collect_data_returns:
  "psutil_net_io_counters r = Some n \<Longrightarrow> last_net self = Some prev_n \<Longrightarrow>
     \<exists>self'. collect_data G self r = Inr self'"
  by (cases "get_gpu_info G (GPUtil_getGPUs r)")
    (auto simp: collect_data_def Let_def split: option.splits)

lemma collect_data_sensor_values:
  assumes "collect_data G self r = Inr self'"
  shows "cpu_temp self' = cpu_temp self @ [if_else_0 (get_cpu_temp (psutil_sensors_temperatures r))] \<and>
         gpu_util self' = gpu_util self @ [if_else_0 (fst (get_gpu_info G (GPUtil_getGPUs r)))] \<and>
         gpu_temp self' = gpu_temp self @ [if_else_0 (fst (snd (get_gpu_info G (GPUtil_getGPUs r))))] \<and>
         gpu_memory self' = gpu_memory self @ [if_else_0 (snd (snd (get_gpu_info G (GPUtil_getGPUs r))))]"
  using assms
  by (cases "get_gpu_info G (GPUtil_getGPUs r)")
    (auto simp: collect_data_def Let_def split: option.splits)

lemma get_gpu_info_unavailable:
  "\<not> G \<or> gpus = None \<or> gpus = Some [] \<Longrightarrow> get_gpu_info G gpus = (None, None, None)"
  by (auto simp: get_gpu_info_def)

lemma collect_data_fallbacks:
  assumes "collect_data G self r = Inr self'"
  shows "(get_cpu_temp (psutil_sensors_temperatures r) = None \<longrightarrow> last (cpu_temp self') = 0) \<and>
         (\<not> G \<or> GPUtil_getGPUs r = None \<or> GPUtil_getGPUs r = Some [] \<longrightarrow>
            last (gpu_util self') = 0 \<and> last (gpu_temp self') = 0 \<and> last (gpu_memory self') = 0)"
proof -
  note vals = collect_data_sensor_values [OF assms]
  have "last (cpu_temp self') = 0" if "get_cpu_temp (psutil_sensors_temperatures r) = None"
    using vals that by (simp add: if_else_0_def)
  moreover have "last (gpu_util self') = 0 \<and> last (gpu_temp self') = 0 \<and> last (gpu_memory self') = 0"
    if "\<not> G \<or> GPUtil_getGPUs r = None \<or> GPUtil_getGPUs r = Some []"
    using vals get_gpu_info_unavailable [OF that] by (simp add: if_else_0_def)
  ultimately show ?thesis by blast
qed

lemma collect_monitor0_reading_no_disk:
  "\<exists>self'. collect_data G monitor0 reading_no_disk = Inr self'"
  by (rule collect_data_returns) (simp_all add: example_defs)

lemma collect_monitor0_reading1: "\<exists>self'. collect_data G monitor0 reading1 = Inr self'"
  by (simp add: collect_data_def Let_def monitor0_def reading1_def init_def split: prod.splits)

text \<open>
  Claim C10. After every call of \<^verbatim>\<open>collect_data\<close> that returns, each of the eleven
  series has grown by exactly one element at its end, and series of one common length
  \<open>n\<close> have the common length \<open>n + 1\<close>, so that every index below it addresses one
  value in every column.
\<close>

theorem collect_data_series_grow:
  assumes "collect_data G self r = Inr self'"
  shows "grown_by_one (timestamps self) (timestamps self') \<and>
         grown_by_one (cpu_percent self) (cpu_percent self') \<and>
         grown_by_one (memory_percent self) (memory_percent self') \<and>
         grown_by_one (disk_read self) (disk_read self') \<and>
         grown_by_one (disk_write self) (disk_write self') \<and>
         grown_by_one (network_sent self) (network_sent self') \<and>
         grown_by_one (network_recv self) (network_recv self') \<and>
         grown_by_one (cpu_temp self) (cpu_temp self') \<and>
         grown_by_one (gpu_util self) (gpu_util self') \<and>
         grown_by_one (gpu_temp self) (gpu_temp self') \<and>
         grown_by_one (gpu_memory self) (gpu_memory self') \<and>
         (series_lengths self n \<longrightarrow> series_lengths self' (Suc n))"
  using assms
  by (auto simp: collect_data_def Let_def series_lengths_def split: option.splits prod.splits)

theorem collect_data_series_grow_witness:
  "(\<exists>self'. collect_data True monitor0 reading1 = Inr self') \<and>
   series_lengths monitor0 0 \<and>
   series_lengths (after (collect_data True monitor0 reading1)) 1 \<and>
   grown_by_one (timestamps monitor0) (timestamps (after (collect_data True monitor0 reading1)))"
proof -
  obtain self' where run: "collect_data True monitor0 reading1 = Inr self'"
    using collect_monitor0_reading1 by blast
  have empty: "series_lengths monitor0 0"
    by (simp add: series_lengths_def monitor0_def init_def)
  from collect_data_series_grow [OF run, of 0] empty run show ?thesis
    by (simp add: after_def)
qed

lemma spec_rate_one:
  "previous \<le> current \<Longrightarrow>
     spec_rate current previous 1 = real_of_int (current - previous) / (1024 * 1024)"
  by (simp add: spec_rate_def)

text \<open>
  Claim C1, as stated: every stored rate is at least \<open>0\<close>, a negative delta being
  clamped. It fails on a tick whose disk counter restarted from a lower value: the
  stored read rate is \<open>-10\<close>.
\<close>

theorem collect_data_rate_sign_counterexample:
  "last (disk_read (after (collect_data True monitor0 reading_reset))) = - 10 \<and>
   \<not> 0 \<le> last (disk_read (after (collect_data True monitor0 reading_reset)))"
  by (simp add: collect_defs example_defs)

text \<open>
  Claim C1, amended. No clamp is applied: on a tick that completes, a stored disk or
  network rate is at least \<open>0\<close> exactly when its cumulative counter has not decreased
  since the previous snapshot (a decrease is stored as a negative rate), and the disk
  rates are \<open>0\<close> when a disk snapshot is missing.
\<close>

theorem collect_data_rate_sign:
  assumes "collect_data G self r = Inr self'"
  shows "(last_disk self = Some prev_d \<and> psutil_disk_io_counters r = Some d \<longrightarrow>
            (0 \<le> last (disk_read self') \<longleftrightarrow> read_bytes prev_d \<le> read_bytes d) \<and>
            (0 \<le> last (disk_write self') \<longleftrightarrow> write_bytes prev_d \<le> write_bytes d)) \<and>
         (last_disk self = None \<or> psutil_disk_io_counters r = None \<longrightarrow>
            last (disk_read self') = 0 \<and> last (disk_write self') = 0) \<and>
         (last_net self = Some prev_n \<and> psutil_net_io_counters r = Some n \<longrightarrow>
            (0 \<le> last (network_sent self') \<longleftrightarrow> bytes_sent prev_n \<le> bytes_sent n) \<and>
            (0 \<le> last (network_recv self') \<longleftrightarrow> bytes_recv prev_n \<le> bytes_recv n))"
  using assms
  by (auto simp: collect_data_def Let_def split: option.splits prod.splits)

theorem collect_data_rate_sign_witness:
  "(\<exists>self'. collect_data True monitor0 reading1 = Inr self') \<and>
   0 \<le> last (disk_read (after (collect_data True monitor0 reading1))) \<and>
   0 \<le> last (disk_write (after (collect_data True monitor0 reading1))) \<and>
   0 \<le> last (network_sent (after (collect_data True monitor0 reading1))) \<and>
   0 \<le> last (network_recv (after (collect_data True monitor0 reading1))) \<and>
   (\<exists>self'. collect_data True monitor0 reading_no_disk = Inr self') \<and>
   last (disk_read (after (collect_data True monitor0 reading_no_disk))) = 0 \<and>
   last (disk_write (after (collect_data True monitor0 reading_no_disk))) = 0"
proof -
  obtain self' where run: "collect_data True monitor0 reading1 = Inr self'"
    using collect_monitor0_reading1 by blast
  obtain self'' where run': "collect_data True monitor0 reading_no_disk = Inr self''"
    using collect_monitor0_reading_no_disk by blast
  from collect_data_rate_sign [OF run,
      where prev_d = "\<lparr>read_bytes = 20 * MiB, write_bytes = 20 * MiB\<rparr>"
        and d = "\<lparr>read_bytes = 30 * MiB, write_bytes = 22 * MiB\<rparr>"
        and prev_n = "\<lparr>bytes_sent = 20 * MiB, bytes_recv = 20 * MiB\<rparr>"
        and n = "\<lparr>bytes_sent = 23 * MiB, bytes_recv = 21 * MiB\<rparr>"]
    collect_data_rate_sign [OF run'] run run'
  show ?thesis
    by (simp add: after_def example_defs)
qed

text \<open>
  Claim C2, as stated: the stored rate is
  \<^verbatim>\<open>max(0, (current - previous) / elapsed_since_last_tick)\<close> in MB/s. It fails on a
  tick taken two seconds after the previous sample with 2 MiB read in between: the
  rule gives \<open>1\<close>, the stored rate is \<open>2\<close>.
\<close>

theorem collect_data_rate_counterexample:
  "spec_elapsed_since_last_tick (after (collect_data True monitor0 reading1)) reading2 = 2 \<and>
   last (disk_read (after (collect_data True (after (collect_data True monitor0 reading1)) reading2))) = 2 \<and>
   spec_rate (32 * MiB) (30 * MiB) 2 = 1 \<and>
   last (disk_read (after (collect_data True (after (collect_data True monitor0 reading1)) reading2)))
     \<noteq> spec_rate (32 * MiB) (30 * MiB)
          (spec_elapsed_since_last_tick (after (collect_data True monitor0 reading1)) reading2)"
  by (simp add: collect_defs example_defs spec_rate_def spec_elapsed_since_last_tick_def)

text \<open>
  Claim C2, amended. When the previous and the current snapshot both exist, the stored
  rate is the byte delta divided by \<open>1024 * 1024\<close>, with no division by the elapsed
  time and no clamp; it is the specification's rule at an elapsed time of exactly one
  second whenever the counter has not decreased. The same holds for the disk and for
  the network counters.
\<close>

theorem collect_data_rate:
  "(last_disk self = Some prev_d \<and> psutil_disk_io_counters r = Some d \<longrightarrow>
      disk_read (after (collect_data G self r)) =
        disk_read self @ [real_of_int (read_bytes d - read_bytes prev_d) / (1024 * 1024)] \<and>
      disk_write (after (collect_data G self r)) =
        disk_write self @ [real_of_int (write_bytes d - write_bytes prev_d) / (1024 * 1024)] \<and>
      (read_bytes prev_d \<le> read_bytes d \<longrightarrow>
         last (disk_read (after (collect_data G self r))) =
           spec_rate (read_bytes d) (read_bytes prev_d) 1) \<and>
      (write_bytes prev_d \<le> write_bytes d \<longrightarrow>
         last (disk_write (after (collect_data G self r))) =
           spec_rate (write_bytes d) (write_bytes prev_d) 1)) \<and>
   (last_net self = Some prev_n \<and> psutil_net_io_counters r = Some n \<longrightarrow>
      network_sent (after (collect_data G self r)) =
        network_sent self @ [real_of_int (bytes_sent n - bytes_sent prev_n) / (1024 * 1024)] \<and>
      network_recv (after (collect_data G self r)) =
        network_recv self @ [real_of_int (bytes_recv n - bytes_recv prev_n) / (1024 * 1024)] \<and>
      (bytes_sent prev_n \<le> bytes_sent n \<longrightarrow>
         last (network_sent (after (collect_data G self r))) =
           spec_rate (bytes_sent n) (bytes_sent prev_n) 1) \<and>
      (bytes_recv prev_n \<le> bytes_recv n \<longrightarrow>
         last (network_recv (after (collect_data G self r))) =
           spec_rate (bytes_recv n) (bytes_recv prev_n) 1))"
  by (auto simp: collect_data_def Let_def after_def spec_rate_one split: option.splits prod.splits)

theorem collect_data_rate_witness:
  "disk_read (after (collect_data True monitor0 reading1)) = [10] \<and>
   disk_write (after (collect_data True monitor0 reading1)) = [2] \<and>
   network_sent (after (collect_data True monitor0 reading1)) = [3] \<and>
   network_recv (after (collect_data True monitor0 reading1)) = [1] \<and>
   spec_rate (30 * MiB) (20 * MiB) 1 = 10 \<and> spec_rate (22 * MiB) (20 * MiB) 1 = 2"
  using collect_data_rate [where self = monitor0 and r = reading1 and G = True
      and prev_d = "\<lparr>read_bytes = 20 * MiB, write_bytes = 20 * MiB\<rparr>"
      and d = "\<lparr>read_bytes = 30 * MiB, write_bytes = 22 * MiB\<rparr>"
      and prev_n = "\<lparr>bytes_sent = 20 * MiB, bytes_recv = 20 * MiB\<rparr>"
      and n = "\<lparr>bytes_sent = 23 * MiB, bytes_recv = 21 * MiB\<rparr>"]
  by (simp add: example_defs spec_rate_def)

text \<open>
  Claim C3, as stated: on the first tick of a run the stored rates are exactly \<open>0\<close>.
  It fails because the constructor already holds a snapshot: the first tick stores
  the delta since construction.
\<close>

theorem collect_data_first_tick_counterexample:
  "timestamps monitor0 = [] \<and>
   last (disk_read (after (collect_data True monitor0 reading1))) = 10 \<and>
   last (disk_read (after (collect_data True monitor0 reading1))) \<noteq> 0 \<and>
   last (network_sent (after (collect_data True monitor0 reading1))) \<noteq> 0"
  by (simp add: collect_defs example_defs)

text \<open>
  Claim C3, amended. On a tick where the disk counters are unavailable (no current
  reply, or no stored previous snapshot) both disk rates stored are exactly \<open>0\<close>. On
  the first tick after construction with counters available, the stored rates are the
  byte deltas since the constructor's snapshots divided by \<open>1024 * 1024\<close>.
\<close>

theorem collect_data_zero_rates:
  "(last_disk self = None \<or> psutil_disk_io_counters r = None \<longrightarrow>
      disk_read (after (collect_data G self r)) = disk_read self @ [0] \<and>
      disk_write (after (collect_data G self r)) = disk_write self @ [0]) \<and>
   (psutil_disk_io_counters r = Some d \<longrightarrow>
      disk_read (after (collect_data G (init dur first_net (Some first_d) clock) r)) =
        [real_of_int (read_bytes d - read_bytes first_d) / (1024 * 1024)] \<and>
      disk_write (after (collect_data G (init dur first_net (Some first_d) clock) r)) =
        [real_of_int (write_bytes d - write_bytes first_d) / (1024 * 1024)]) \<and>
   (psutil_net_io_counters r = Some n \<longrightarrow>
      network_sent (after (collect_data G (init dur (Some first_n) first_disk clock) r)) =
        [real_of_int (bytes_sent n - bytes_sent first_n) / (1024 * 1024)] \<and>
      network_recv (after (collect_data G (init dur (Some first_n) first_disk clock) r)) =
        [real_of_int (bytes_recv n - bytes_recv first_n) / (1024 * 1024)])"
  by (auto simp: collect_data_def Let_def after_def init_def split: option.splits prod.splits)

theorem collect_data_zero_rates_witness:
  "psutil_disk_io_counters reading_no_disk = None \<and>
   disk_read (after (collect_data True monitor0 reading_no_disk)) = [0] \<and>
   disk_write (after (collect_data True monitor0 reading_no_disk)) = [0] \<and>
   disk_read (after (collect_data True monitor0 reading1)) = [10] \<and>
   disk_write (after (collect_data True monitor0 reading1)) = [2] \<and>
   network_sent (after (collect_data True monitor0 reading1)) = [3] \<and>
   network_recv (after (collect_data True monitor0 reading1)) = [1]"
  using collect_data_zero_rates [where self = monitor0 and r = reading_no_disk and G = True]
    collect_data_zero_rates [where r = reading1 and G = True and dur = 120 and clock = 1000
      and d = "\<lparr>read_bytes = 30 * MiB, write_bytes = 22 * MiB\<rparr>"
      and first_d = "\<lparr>read_bytes = 20 * MiB, write_bytes = 20 * MiB\<rparr>"
      and first_net = "Some \<lparr>bytes_sent = 20 * MiB, bytes_recv = 20 * MiB\<rparr>"]
    collect_data_zero_rates [where r = reading1 and G = True and dur = 120 and clock = 1000
      and n = "\<lparr>bytes_sent = 23 * MiB, bytes_recv = 21 * MiB\<rparr>"
      and first_n = "\<lparr>bytes_sent = 20 * MiB, bytes_recv = 20 * MiB\<rparr>"
      and first_disk = "Some \<lparr>read_bytes = 20 * MiB, write_bytes = 20 * MiB\<rparr>"]
  by (simp add: example_defs)

section \<open>Properties of the report\<close>

lemma collect_rows_Inr:
  "collect_rows f xs = Inr ys \<Longrightarrow> list_all2 (\<lambda>x y. f x = Inr y) xs ys"
proof (induction xs arbitrary: ys)
  case Nil
  then show ?case by simp
next
  case (Cons x xs)
  then show ?case
    by (auto split: sum.splits)
qed

lemma collect_rows_map:
  "(\<And>x. x \<in> set xs \<Longrightarrow> f x = Inr (g x)) \<Longrightarrow> collect_rows f xs = Inr (map g xs)"
  by (induction xs) auto

lemma fold_min_Min: "fold min ys (x::real) = Min (insert x (set ys))"
  using Min.set_eq_fold [of x ys] by simp

lemma fold_max_Max: "fold max ys (x::real) = Max (insert x (set ys))"
  using Max.set_eq_fold [of x ys] by simp

lemma np_min_Inr: "np_min xs = Inr lo \<Longrightarrow> xs \<noteq> [] \<and> lo = Min (set xs)"
  by (cases xs) (auto simp: np_min_def fold_min_Min)

lemma np_max_Inr: "np_max xs = Inr hi \<Longrightarrow> xs \<noteq> [] \<and> hi = Max (set xs)"
  by (cases xs) (auto simp: np_max_def fold_max_Max)

lemma stats_row_Inr:
  "stats_row res xs = Inr row \<Longrightarrow> xs \<noteq> [] \<and> row = spec_column_stats res xs"
  by (auto simp: stats_row_def spec_column_stats_def np_mean_def np_std_def
      split: sum.splits dest: np_min_Inr np_max_Inr)

lemma stats_row_nonempty:
  "xs \<noteq> [] \<Longrightarrow> stats_row res xs = Inr (spec_column_stats res xs)"
  by (cases xs) (auto simp: stats_row_def spec_column_stats_def np_mean_def np_std_def
      np_min_def np_max_def fold_min_Min fold_max_Max)

lemma collected_stats:
  "collect_rows (\<lambda>(res, xs). stats_row res xs) cols = Inr rows \<Longrightarrow>
     rows = map (\<lambda>(res, xs). spec_column_stats res xs) cols"
proof (induction cols arbitrary: rows)
  case Nil
  then show ?case by simp
next
  case (Cons c cols)
  then show ?case
    by (cases c) (auto split: sum.splits dest: stats_row_Inr)
qed

lemma row_resources_stats:
  "row_resources (map (\<lambda>(res, xs). spec_column_stats res xs) cols) = map fst cols"
  by (induction cols) (auto simp: spec_column_stats_def)

lemma summary_data_rows:
  assumes "summary_data G self = Inr rows"
  shows "rows = Summary_Header # map (\<lambda>(res, xs). spec_column_stats res xs) (summary_columns G self)"
  using assms by (auto simp: summary_data_def split: sum.splits dest: collected_stats)

lemma any_positive_iff: "any_positive xs \<longleftrightarrow> (\<exists>t\<in>set xs. 0 < t)"
  by (simp add: any_positive_def list_ex_iff)

lemma summary_columns_resources:
  "map fst (summary_columns G self) =
     [CPU_Usage, Memory_Usage, Disk_Read, Disk_Write, Network_Sent, Network_Recv]
     @ (if \<exists>t\<in>set (cpu_temp self). 0 < t then [CPU_Temperature] else [])
     @ (if G \<and> (\<exists>g\<in>set (gpu_util self). 0 < g)
        then [GPU_Utilization, GPU_Memory, GPU_Temperature] else [])"
  by (simp add: summary_columns_def any_positive_iff)

lemma summary_columns_cpu_temp:
  "\<exists>t\<in>set (cpu_temp self). 0 < t \<Longrightarrow>
     (CPU_Temperature, cpu_temp self) \<in> set (summary_columns G self)"
  by (simp add: summary_columns_def any_positive_iff)

lemma summary_columns_gpu:
  "G \<and> (\<exists>g\<in>set (gpu_util self). 0 < g) \<Longrightarrow>
     (GPU_Utilization, gpu_util self) \<in> set (summary_columns G self) \<and>
     (GPU_Memory, gpu_memory self) \<in> set (summary_columns G self) \<and>
     (GPU_Temperature, gpu_temp self) \<in> set (summary_columns G self)"
  by (simp add: summary_columns_def any_positive_iff)

lemma spec_column_stats_in_rows:
  "(res, xs) \<in> set cols \<Longrightarrow>
     spec_column_stats res xs \<in> set (Summary_Header # map (\<lambda>(res, xs). spec_column_stats res xs) cols)"
  by force

lemmas store_defs = store1_def store_cold_def store_gpu_busy_def reading_cold_def
  reading_gpu_busy_def

lemma store1_series:
  "timestamps store1 = [1] \<and> cpu_percent store1 = [25] \<and> memory_percent store1 = [50] \<and>
   disk_read store1 = [10] \<and> disk_write store1 = [2] \<and> network_sent store1 = [3] \<and>
   network_recv store1 = [1] \<and> cpu_temp store1 = [55] \<and> gpu_util store1 = [0] \<and>
   gpu_temp store1 = [45] \<and> gpu_memory store1 = [25 / 2]"
  by (simp add: store_defs collect_defs example_defs)

lemma store_cold_series:
  "timestamps store_cold = [1] \<and> cpu_percent store_cold = [25] \<and>
   memory_percent store_cold = [50] \<and> disk_read store_cold = [10] \<and>
   disk_write store_cold = [2] \<and> network_sent store_cold = [3] \<and>
   network_recv store_cold = [1] \<and> cpu_temp store_cold = [- 5] \<and> gpu_util store_cold = [0] \<and>
   gpu_temp store_cold = [45] \<and> gpu_memory store_cold = [25 / 2]"
  by (simp add: store_defs collect_defs example_defs)

lemma store_gpu_busy_series:
  "timestamps store_gpu_busy = [1] \<and> cpu_percent store_gpu_busy = [25] \<and>
   memory_percent store_gpu_busy = [50] \<and> disk_read store_gpu_busy = [10] \<and>
   disk_write store_gpu_busy = [2] \<and> network_sent store_gpu_busy = [3] \<and>
   network_recv store_gpu_busy = [1] \<and> cpu_temp store_gpu_busy = [55] \<and>
   gpu_util store_gpu_busy = [50] \<and> gpu_temp store_gpu_busy = [60] \<and>
   gpu_memory store_gpu_busy = [25]"
  by (simp add: store_defs collect_defs example_defs)

lemma summary_data_succeeds:
  assumes "series_lengths self n" and "0 < n"
  shows "summary_data G self =
           Inr (Summary_Header # map (\<lambda>(res, xs). spec_column_stats res xs) (summary_columns G self))"
proof -
  have "stats_row res xs = Inr (spec_column_stats res xs)"
    if "(res, xs) \<in> set (summary_columns G self)" for res xs
  proof -
    from that assms have "xs \<noteq> []"
      by (auto simp: summary_columns_def series_lengths_def split: if_splits)
    then show ?thesis by (rule stats_row_nonempty)
  qed
  then have "collect_rows (\<lambda>(res, xs). stats_row res xs) (summary_columns G self) =
      Inr (map (\<lambda>(res, xs). spec_column_stats res xs) (summary_columns G self))"
    by (intro collect_rows_map) auto
  then show ?thesis by (simp add: summary_data_def)
qed

lemma series_lengths_store1: "series_lengths store1 1"
  using store1_series by (simp add: series_lengths_def)

lemma series_lengths_store_cold: "series_lengths store_cold 1"
  using store_cold_series by (simp add: series_lengths_def)

lemma series_lengths_store_gpu_busy: "series_lengths store_gpu_busy 1"
  using store_gpu_busy_series by (simp add: series_lengths_def)

lemma store_bare_series:
  "timestamps store_bare = [1] \<and> cpu_percent store_bare = [25] \<and>
   memory_percent store_bare = [50] \<and> disk_read store_bare = [10] \<and>
   disk_write store_bare = [2] \<and> network_sent store_bare = [3] \<and>
   network_recv store_bare = [1] \<and> cpu_temp store_bare = [0] \<and> gpu_util store_bare = [0] \<and>
   gpu_temp store_bare = [0] \<and> gpu_memory store_bare = [0]"
  by (simp add: store_bare_def reading_bare_def collect_defs example_defs)

lemma series_lengths_store_bare: "series_lengths store_bare 1"
  using store_bare_series by (simp add: series_lengths_def)

text \<open>
  Claim C6, as stated: a CPU-temperature or GPU row is in the summary table if and
  only if at least one collected value of that metric is not the fallback \<open>0\<close>. It
  fails for a GPU that was idle during the run (utilisation \<open>0\<close>, temperature \<open>45\<close>):
  the GPU temperature column holds a real reading and the table has no GPU row. It
  also fails for a temperature sensor that reads below zero.
\<close>

theorem summary_optional_rows_counterexample:
  "(\<exists>rows. summary_data True store1 = Inr rows) \<and>
   (\<exists>v\<in>set (gpu_temp store1). spec_non_fallback v) \<and>
   GPU_Temperature \<notin> set (row_resources (projr (summary_data True store1))) \<and>
   (\<exists>rows. summary_data True store_cold = Inr rows) \<and>
   (\<exists>v\<in>set (cpu_temp store_cold). spec_non_fallback v) \<and>
   CPU_Temperature \<notin> set (row_resources (projr (summary_data True store_cold)))"
proof -
  have one: "summary_data True store1 =
      Inr (Summary_Header # map (\<lambda>(res, xs). spec_column_stats res xs) (summary_columns True store1))"
    by (rule summary_data_succeeds [OF series_lengths_store1]) simp
  have cold: "summary_data True store_cold =
      Inr (Summary_Header # map (\<lambda>(res, xs). spec_column_stats res xs) (summary_columns True store_cold))"
    by (rule summary_data_succeeds [OF series_lengths_store_cold]) simp
  show ?thesis
    unfolding one cold
    using store1_series store_cold_series
    by (simp add: row_resources_stats summary_columns_resources spec_non_fallback_def)
qed

text \<open>
  Claim C6, amended. The CPU-temperature row is in the summary table if and only if at
  least one collected CPU temperature is greater than \<open>0\<close>. The three GPU rows
  (utilisation, memory, temperature) are in the table together, if and only if the
  GPU backend is available and at least one collected GPU utilisation is greater than
  \<open>0\<close>; the GPU memory and temperature values are not consulted. A row that is
  present holds the mean, minimum, maximum and standard deviation over the whole
  column, fallback zeros included. When every collected CPU temperature (GPU
  utilisation) is the fallback \<open>0\<close>, the row (the three rows) is left out.
\<close>

theorem summary_optional_rows:
  assumes "summary_data G self = Inr rows"
  shows "(CPU_Temperature \<in> set (row_resources rows) \<longleftrightarrow> (\<exists>t\<in>set (cpu_temp self). 0 < t)) \<and>
         (GPU_Utilization \<in> set (row_resources rows) \<longleftrightarrow> G \<and> (\<exists>g\<in>set (gpu_util self). 0 < g)) \<and>
         (GPU_Memory \<in> set (row_resources rows) \<longleftrightarrow> G \<and> (\<exists>g\<in>set (gpu_util self). 0 < g)) \<and>
         (GPU_Temperature \<in> set (row_resources rows) \<longleftrightarrow> G \<and> (\<exists>g\<in>set (gpu_util self). 0 < g)) \<and>
         (CPU_Temperature \<in> set (row_resources rows) \<longrightarrow>
            spec_column_stats CPU_Temperature (cpu_temp self) \<in> set rows) \<and>
         (GPU_Utilization \<in> set (row_resources rows) \<longrightarrow>
            spec_column_stats GPU_Utilization (gpu_util self) \<in> set rows \<and>
            spec_column_stats GPU_Memory (gpu_memory self) \<in> set rows \<and>
            spec_column_stats GPU_Temperature (gpu_temp self) \<in> set rows) \<and>
         ((\<forall>t\<in>set (cpu_temp self). t = 0) \<longrightarrow> CPU_Temperature \<notin> set (row_resources rows)) \<and>
         ((\<forall>g\<in>set (gpu_util self). g = 0) \<longrightarrow>
            GPU_Utilization \<notin> set (row_resources rows) \<and>
            GPU_Memory \<notin> set (row_resources rows) \<and>
            GPU_Temperature \<notin> set (row_resources rows))"
proof -
  note rows = summary_data_rows [OF assms]
  have res: "row_resources rows = map fst (summary_columns G self)"
    unfolding rows by (simp add: row_resources_stats)
  have cpu: "CPU_Temperature \<in> set (row_resources rows) \<longleftrightarrow> (\<exists>t\<in>set (cpu_temp self). 0 < t)"
    unfolding res summary_columns_resources by simp
  have gpu: "GPU_Utilization \<in> set (row_resources rows) \<longleftrightarrow> G \<and> (\<exists>g\<in>set (gpu_util self). 0 < g)"
    "GPU_Memory \<in> set (row_resources rows) \<longleftrightarrow> G \<and> (\<exists>g\<in>set (gpu_util self). 0 < g)"
    "GPU_Temperature \<in> set (row_resources rows) \<longleftrightarrow> G \<and> (\<exists>g\<in>set (gpu_util self). 0 < g)"
    unfolding res summary_columns_resources by simp_all
  have cpu_row: "spec_column_stats CPU_Temperature (cpu_temp self) \<in> set rows"
    if "\<exists>t\<in>set (cpu_temp self). 0 < t"
    unfolding rows by (rule spec_column_stats_in_rows [OF summary_columns_cpu_temp [OF that]])
  have gpu_rows: "spec_column_stats GPU_Utilization (gpu_util self) \<in> set rows \<and>
            spec_column_stats GPU_Memory (gpu_memory self) \<in> set rows \<and>
            spec_column_stats GPU_Temperature (gpu_temp self) \<in> set rows"
    if "G \<and> (\<exists>g\<in>set (gpu_util self). 0 < g)"
    unfolding rows using summary_columns_gpu [OF that]
    by (blast intro: spec_column_stats_in_rows)
  have cpu_none: "CPU_Temperature \<notin> set (row_resources rows)" if "\<forall>t\<in>set (cpu_temp self). t = 0"
    using that unfolding cpu by auto
  have gpu_none: "GPU_Utilization \<notin> set (row_resources rows) \<and>
            GPU_Memory \<notin> set (row_resources rows) \<and>
            GPU_Temperature \<notin> set (row_resources rows)" if "\<forall>g\<in>set (gpu_util self). g = 0"
    using that unfolding gpu by auto
  from cpu gpu cpu_row gpu_rows cpu_none gpu_none show ?thesis
    by blast
qed


theorem summary_optional_rows_witness:
  "(\<exists>rows. summary_data True store1 = Inr rows) \<and>
   CPU_Temperature \<in> set (row_resources (projr (summary_data True store1))) \<and>
   spec_column_stats CPU_Temperature [55] \<in> set (projr (summary_data True store1)) \<and>
   GPU_Utilization \<notin> set (row_resources (projr (summary_data True store1))) \<and>
   (\<exists>rows. summary_data True store_gpu_busy = Inr rows) \<and>
   GPU_Temperature \<in> set (row_resources (projr (summary_data True store_gpu_busy))) \<and>
   spec_column_stats GPU_Temperature [60] \<in> set (projr (summary_data True store_gpu_busy)) \<and>
   (\<exists>rows. summary_data True store_bare = Inr rows) \<and>
   CPU_Temperature \<notin> set (row_resources (projr (summary_data True store_bare))) \<and>
   GPU_Temperature \<notin> set (row_resources (projr (summary_data True store_bare)))"
proof -
  obtain rows where one: "summary_data True store1 = Inr rows"
    using summary_data_succeeds [OF series_lengths_store1, of True] by simp
  obtain rows' where busy: "summary_data True store_gpu_busy = Inr rows'"
    using summary_data_succeeds [OF series_lengths_store_gpu_busy, of True] by simp
  obtain rows'' where bare: "summary_data True store_bare = Inr rows''"
    using summary_data_succeeds [OF series_lengths_store_bare, of True] by simp
  from summary_optional_rows [OF one] summary_optional_rows [OF busy]
    summary_optional_rows [OF bare]
    store1_series store_gpu_busy_series store_bare_series one busy bare
  show ?thesis by simp
qed

lemma detail_record_in_range:
  "series_lengths self n \<Longrightarrow> i < n \<Longrightarrow> detail_record self i = Inr (record_at self i)"
  by (simp add: detail_record_def series_lengths_def)

lemma collect_detail_records:
  assumes "series_lengths self n" and "\<And>i. i \<in> set is \<Longrightarrow> i < n"
  shows "collect_rows (detail_record self) is = Inr (map (record_at self) is)"
  using assms by (intro collect_rows_map) (simp add: detail_record_in_range)

lemma detailed_data_rows:
  assumes "series_lengths self n"
  shows "detailed_data self =
           Inr (Detail_Header # map (record_at self) [0..<min 10 n]
                @ (if 20 < n then Detail_Ellipsis # map (record_at self) [n - 10..<n] else []))"
proof -
  have n: "length (timestamps self) = n"
    using assms by (simp add: series_lengths_def)
  have leading: "collect_rows (detail_record self) (first_records n) =
      Inr (map (record_at self) [0..<min 10 n])"
    unfolding first_records_def
    by (rule collect_detail_records [OF assms]) simp
  have trailing: "collect_rows (detail_record self) (last_records n) =
      Inr (map (record_at self) [n - 10..<n])" if "20 < n"
  proof -
    from that have "last_records n = [n - 10..<n]"
      by (simp add: last_records_def max_def)
    moreover have "collect_rows (detail_record self) [n - 10..<n] =
        Inr (map (record_at self) [n - 10..<n])"
      by (rule collect_detail_records [OF assms]) simp
    ultimately show ?thesis by simp
  qed
  show ?thesis
    by (simp add: detailed_data_def n leading trailing)
qed


lemma generate_pdf_report_removes_graph_file:
  assumes "summary_data G self = Inr summary" and "detailed_data self = Inr detail"
    and "savefig_raises env = None" and "build_raises env = None"
  shows "\<exists>w'. generate_pdf_report G env self filename w = Inr w' \<and> files w' graph_file = None"
  using assms by (simp add: generate_pdf_report_def Let_def)

lemma generate_pdf_report_empty_store:
  "cpu_percent self = [] \<Longrightarrow>
     generate_pdf_report G env self filename w =
       Inl (ValueError, w\<lparr>console := console w @ [GeneratingReport filename]\<rparr>)"
  by (simp add: generate_pdf_report_def Let_def summary_data_def summary_columns_def
      stats_row_def np_min_def)



text \<open>
  Claim C9 says that the temporary chart image is removed on every exit path of
  \<^verbatim>\<open>generate_pdf_report\<close>. The removal follows \<^verbatim>\<open>doc.build\<close> with no
  \<^verbatim>\<open>try/finally\<close>: when the charts were saved and \<^verbatim>\<open>doc.build\<close> raises, the function
  leaves with the exception and the image still exists.
\<close>

theorem report_failure_keeps_graph_file:
  assumes "summary_data G self = Inr summary" and "detailed_data self = Inr detail"
    and "savefig_raises env = None" and "build_raises env = Some e"
  shows "generate_pdf_report G env self filename w =
           Inl (e, w\<lparr>console := console w @ [GeneratingReport filename],
                     files := (files w)(graph_file \<mapsto> Chart_Image)\<rparr>)"
  using assms by (simp add: generate_pdf_report_def Let_def)

theorem report_failure_keeps_graph_file_witness:
  "generate_pdf_report True failing_build store1 ''system_monitor_report.pdf'' world0 =
     Inl (OSError, \<lparr>files = [graph_file \<mapsto> Chart_Image],
                    console = [GeneratingReport ''system_monitor_report.pdf'']\<rparr>) \<and>
   graph_file \<in> dom (files (snd (projl
      (generate_pdf_report True failing_build store1 ''system_monitor_report.pdf'' world0))))"
  using report_failure_keeps_graph_file [OF
      summary_data_succeeds [OF series_lengths_store1, of True]
      detailed_data_rows [OF series_lengths_store1],
      where env = failing_build and e = OSError and filename = "''system_monitor_report.pdf''"
        and w = world0]
  by (simp add: failing_build_def world0_def)

section \<open>Properties of the collection loop\<close>

lemma collect_data_timestamps:
  "timestamps (after (collect_data G self r)) = timestamps self @ [time_time r - start_time self]"
  by (auto simp: collect_data_def Let_def after_def split: option.splits prod.splits)

lemma collect_data_duration:
  "duration (after (collect_data G self r)) = duration self"
  by (auto simp: collect_data_def Let_def after_def split: option.splits prod.splits)

lemma collection_loop_samples:
  "collection_loop G start_t events self it out = Some res \<Longrightarrow>
     length (timestamps self) \<le> samples_after res"
proof (induction events arbitrary: self it out)
  case Nil
  then show ?case by simp
next
  case (Cons ev events)
  show ?case
  proof (cases ev)
    case KeyboardInterrupt
    with Cons.prems show ?thesis by (auto simp: samples_after_def after_def)
  next
    case (Tick t r t')
    show ?thesis
    proof (cases "t - start_t < duration self")
      case False
      with Cons.prems Tick show ?thesis by (auto simp: samples_after_def after_def)
    next
      case True
      show ?thesis
      proof (cases "collect_data G self r")
        case (Inl a)
        then obtain e self' where a: "a = (e, self')" by (cases a)
        from collect_data_timestamps [of G self r] Inl a
        have "length (timestamps self') = Suc (length (timestamps self))"
          by (simp add: after_def)
        with Cons.prems Tick True Inl a show ?thesis
          by (auto simp: samples_after_def after_def)
      next
        case (Inr self')
        from collect_data_timestamps [of G self r] Inr
        have len: "length (timestamps self') = Suc (length (timestamps self))"
          by (simp add: after_def)
        show ?thesis
        proof (cases "duration self' = 0")
          case True
          with Cons.prems Tick \<open>t - start_t < duration self\<close> Inr len show ?thesis
            by (auto simp: samples_after_def after_def)
        next
          case False
          with Cons.prems Tick \<open>t - start_t < duration self\<close> Inr
          have "collection_loop G start_t events self' (it + 1) (out @ [Progress (it + 1)]) = Some res"
            by simp
          from Cons.IH [OF this] len show ?thesis by simp
        qed
      qed
    qed
  qed
qed

lemma collection_loop_first_tick:
  assumes "t - start_t < duration self"
    and "collection_loop G start_t (Tick t r t' # events) self it out = Some res"
  shows "Suc (length (timestamps self)) \<le> samples_after res"
proof (cases "collect_data G self r")
  case (Inl a)
  then obtain e self' where a: "a = (e, self')" by (cases a)
  from collect_data_timestamps [of G self r] Inl a
  have "length (timestamps self') = Suc (length (timestamps self))"
    by (simp add: after_def)
  with assms Inl a show ?thesis
    by (auto simp: samples_after_def after_def)
next
  case (Inr self')
  from collect_data_timestamps [of G self r] Inr
  have len: "length (timestamps self') = Suc (length (timestamps self))"
    by (simp add: after_def)
  show ?thesis
  proof (cases "duration self' = 0")
    case True
    with assms Inr len show ?thesis
      by (auto simp: samples_after_def after_def)
  next
    case False
    with assms Inr
    have "collection_loop G start_t events self' (it + 1) (out @ [Progress (it + 1)]) = Some res"
      by simp
    from collection_loop_samples [OF this] len show ?thesis by simp
  qed
qed

lemma collection_loop_stops:
  assumes "ev \<in> set events"
    and "ev = KeyboardInterrupt \<or> (\<exists>t r t'. ev = Tick t r t' \<and> duration self \<le> t - start_t)"
  shows "\<exists>res. collection_loop G start_t events self it out = Some res"
  using assms
proof (induction events arbitrary: self it out)
  case Nil
  then show ?case by simp
next
  case (Cons e events)
  show ?case
  proof (cases e)
    case KeyboardInterrupt
    then show ?thesis by simp
  next
    case (Tick t r t')
    show ?thesis
    proof (cases "t - start_t < duration self")
      case False
      with Tick show ?thesis by simp
    next
      case True
      with Cons.prems Tick have mem: "ev \<in> set events" by auto
      show ?thesis
      proof (cases "collect_data G self r")
        case (Inl a)
        with Tick True show ?thesis by (cases a) simp
      next
        case (Inr self')
        from collect_data_duration [of G self r] Inr
        have "duration self' = duration self" by (simp add: after_def)
        with Cons.prems(2)
        have "ev = KeyboardInterrupt \<or> (\<exists>t r t'. ev = Tick t r t' \<and> duration self' \<le> t - start_t)"
          by simp
        from Cons.IH [OF mem this] Tick True Inr show ?thesis by simp
      qed
    qed
  qed
qed


text \<open>
  Claim C4, as stated: a duration of \<open>0\<close> still yields at least one sample before the
  report is attempted. It fails: the loop condition \<open>elapsed < 0\<close> is false at the
  first clock read, the body never runs, the store stays empty and \<^verbatim>\<open>start\<close> prints
  the no-data notice.
\<close>

theorem start_minimum_tick_counterexample:
  "duration (monitor0\<lparr>duration := 0\<rparr>) = 0 \<and>
   collection_loop True 1000 [Tick 1000 reading1 (1000 + 1 / 10), Tick 1001 reading2 (1001 + 1 / 10)]
     (monitor0\<lparr>duration := 0\<rparr>) 0 [Starting] = Some (Inr (monitor0\<lparr>duration := 0\<rparr>, [Starting])) \<and>
   timestamps (monitor0\<lparr>duration := 0\<rparr>) = [] \<and>
   start True working_build 1000 [Tick 1000 reading1 (1000 + 1 / 10), Tick 1001 reading2 (1001 + 1 / 10)]
     (monitor0\<lparr>duration := 0\<rparr>) world0 =
     Some (Inr (monitor0\<lparr>duration := 0\<rparr>,
                world0\<lparr>console := [Starting, DataCollectionComplete, NoDataCollected]\<rparr>))"
  by (simp add: start_def world0_def monitor0_def init_def)

text \<open>
  Claim C4, amended. When the first clock read of the loop condition is below the
  duration, at least one sample is stored before the loop ends in any way; for a
  positive duration shorter than one interval, where the next clock read has reached
  the duration, the loop ends normally with exactly one sample more (given that the
  collection step returns). When the first clock read has already reached the
  duration, as it has for a duration of \<open>0\<close>, the loop ends at once with the store
  unchanged.
\<close>

theorem start_minimum_tick:
  "(t - start_t < duration self \<and>
      collection_loop G start_t (Tick t r t' # events) self it out = Some res \<longrightarrow>
      Suc (length (timestamps self)) \<le> samples_after res) \<and>
   (0 < duration self \<and> t - start_t < duration self \<and> duration self \<le> t2 - start_t \<and>
      collect_data G self r = Inr self' \<longrightarrow>
      collection_loop G start_t (Tick t r t' # Tick t2 r2 t2' # events) self it out =
        Some (Inr (self', out @ [Progress (it + 1)])) \<and>
      length (timestamps self') = Suc (length (timestamps self))) \<and>
   (duration self \<le> t - start_t \<longrightarrow>
      collection_loop G start_t (Tick t r t' # events) self it out = Some (Inr (self, out)))"
proof -
  have one: "collection_loop G start_t (Tick t r t' # Tick t2 r2 t2' # events) self it out =
        Some (Inr (self', out @ [Progress (it + 1)])) \<and>
      length (timestamps self') = Suc (length (timestamps self))"
    if "0 < duration self" and "t - start_t < duration self" and "duration self \<le> t2 - start_t"
      and run: "collect_data G self r = Inr self'"
  proof -
    from collect_data_duration [of G self r] run have d: "duration self' = duration self"
      by (simp add: after_def)
    from collect_data_timestamps [of G self r] run
    have "length (timestamps self') = Suc (length (timestamps self))"
      by (simp add: after_def)
    with that d show ?thesis by simp
  qed
  from collection_loop_first_tick [of t start_t self G r t' events it out res] one
  show ?thesis by auto
qed

theorem start_minimum_tick_witness:
  "(0::real) < 1 / 2 \<and>
   collection_loop True 1000 [Tick 1000 reading1 (1000 + 1 / 10), Tick (1001 + 1 / 10) reading2 (1001 + 1 / 5)]
     (monitor0\<lparr>duration := 1 / 2\<rparr>) 0 [Starting] 
     = Some (Inr (after (collect_data True (monitor0\<lparr>duration := 1 / 2\<rparr>) reading1), [Starting, Progress 1])) \<and>
   samples_after (the (collection_loop True 1000
     [Tick 1000 reading1 (1000 + 1 / 10), Tick (1001 + 1 / 10) reading2 (1001 + 1 / 5)]
     (monitor0\<lparr>duration := 1 / 2\<rparr>) 0 [Starting])) = 1 \<and>
   collection_loop True 1000 [Tick 1000 reading1 (1000 + 1 / 10)] (monitor0\<lparr>duration := 0\<rparr>) 0 [Starting]
     = Some (Inr (monitor0\<lparr>duration := 0\<rparr>, [Starting]))"
proof -
  have "\<exists>self'. collect_data True (monitor0\<lparr>duration := 1 / 2\<rparr>) reading1 = Inr self'"
    by (rule collect_data_returns) (simp_all add: monitor0_def reading1_def init_def)
  then obtain self' where run: "collect_data True (monitor0\<lparr>duration := 1 / 2\<rparr>) reading1 = Inr self'"
    by blast
  have d: "duration (monitor0\<lparr>duration := 1 / 2\<rparr>) = 1 / 2" and e: "timestamps (monitor0\<lparr>duration := 1 / 2\<rparr>) = []"
    and z: "duration (monitor0\<lparr>duration := 0\<rparr>) = 0"
    by (simp_all add: monitor0_def init_def)
  have short: "collection_loop True 1000
      [Tick 1000 reading1 (1000 + 1 / 10), Tick (1001 + 1 / 10) reading2 (1001 + 1 / 5)]
      (monitor0\<lparr>duration := 1 / 2\<rparr>) 0 [Starting] = Some (Inr (self', [Starting, Progress 1]))"
    using start_minimum_tick [where self = "monitor0\<lparr>duration := 1 / 2\<rparr>" and t = 1000
      and start_t = 1000 and ?t2.0 = "1001 + 1 / 10" and G = True and r = reading1 and self' = self'
      and t' = "1000 + 1 / 10" and ?r2.0 = reading2 and ?t2' = "1001 + 1 / 5" and events = "[]"
      and it = 0 and out = "[Starting]" and res = "Inr (self', [Starting, Progress 1])"]
      run d
    by simp
  have one: "Suc (length (timestamps (monitor0\<lparr>duration := 1 / 2\<rparr>))) \<le>
      samples_after (Inr (self', [Starting, Progress 1]))"
    using start_minimum_tick [where self = "monitor0\<lparr>duration := 1 / 2\<rparr>" and t = 1000
      and start_t = 1000 and ?t2.0 = "1001 + 1 / 10" and G = True and r = reading1 and self' = self'
      and t' = "1000 + 1 / 10" and ?r2.0 = reading2 and ?t2' = "1001 + 1 / 5"
      and events = "[Tick (1001 + 1 / 10) reading2 (1001 + 1 / 5)]"
      and it = 0 and out = "[Starting]" and res = "Inr (self', [Starting, Progress 1])"]
      short d
    by simp
  have zero: "collection_loop True 1000 [Tick 1000 reading1 (1000 + 1 / 10)]
      (monitor0\<lparr>duration := 0\<rparr>) 0 [Starting] = Some (Inr (monitor0\<lparr>duration := 0\<rparr>, [Starting]))"
    using start_minimum_tick [where self = "monitor0\<lparr>duration := 0\<rparr>" and t = 1000
      and start_t = 1000 and ?t2.0 = 1001 and G = True and r = reading1 and self' = self'
      and t' = "1000 + 1 / 10" and ?r2.0 = reading2 and ?t2' = 1002 and events = "[]"
      and it = 0 and out = "[Starting]" and res = "Inr (self', [])"] z
    by simp
  have len: "length (timestamps self') = 1"
    using collect_data_timestamps [of True "monitor0\<lparr>duration := 1 / 2\<rparr>" reading1] run e
    by (simp add: after_def)
  from short zero len run show ?thesis
    by (simp add: samples_after_def after_def)
qed

text \<open>
  Claim C8. When the loop ends with an empty store, \<^verbatim>\<open>start\<close> returns without an
  exception, does not call the report (the files are unchanged, so no document is
  written) and prints the notice that no data was collected as its last message.
\<close>

theorem start_empty_store:
  assumes "collection_loop G start_t events self 0 (console w @ [Starting]) = Some (Inr (self', out))"
    and "timestamps self' = []"
  shows "start G env start_t events self w =
           Some (Inr (self', w\<lparr>console := out @ [DataCollectionComplete, NoDataCollected]\<rparr>)) \<and>
         files (snd (after (the (start G env start_t events self w)))) = files w \<and>
         last (console (snd (after (the (start G env start_t events self w))))) = NoDataCollected"
  using assms by (simp add: start_def Let_def after_def)

theorem start_empty_store_witness:
  "collection_loop True 1000 [KeyboardInterrupt] monitor0 0 (console world0 @ [Starting]) =
     Some (Inr (monitor0, [Starting, MonitoringInterrupted])) \<and>
   timestamps monitor0 = [] \<and>
   start True working_build 1000 [KeyboardInterrupt] monitor0 world0 =
     Some (Inr (monitor0, \<lparr>files = Map.empty,
        console = [Starting, MonitoringInterrupted, DataCollectionComplete, NoDataCollected]\<rparr>))"
proof -
  have run: "collection_loop True 1000 [KeyboardInterrupt] monitor0 0 (console world0 @ [Starting]) =
     Some (Inr (monitor0, [Starting, MonitoringInterrupted]))"
    by (simp add: world0_def)
  have empty: "timestamps monitor0 = []"
    by (simp add: monitor0_def init_def)
  from start_empty_store [OF run empty, of working_build] run empty show ?thesis
    by (simp add: world0_def)
qed

text \<open>
  Claim C5 says that the collection step never raises and appends one complete
  sample, whatever metric is unavailable. On a tick where psutil has no network
  counters (\<^verbatim>\<open>net_io_counters()\<close> returns \<^verbatim>\<open>None\<close>) the step raises
  \<^verbatim>\<open>AttributeError\<close> after five of the eleven appends, and the exception leaves
  \<^verbatim>\<open>start\<close>: later ticks are not taken. The disk block beside it checks for
  \<^verbatim>\<open>None\<close>.
\<close>

theorem collect_data_no_net_raises:
  "collect_data True monitor0 reading_no_net =
     Inl (AttributeError,
          monitor0\<lparr>timestamps := [1], cpu_percent := [25], memory_percent := [50],
            disk_read := [10], disk_write := [2],
            last_disk := Some \<lparr>read_bytes = 30 * MiB, write_bytes = 22 * MiB\<rparr>\<rparr>) \<and>
   \<not> series_lengths (after (collect_data True monitor0 reading_no_net)) 1 \<and>
   start True working_build 1000
     [Tick 1000 reading_no_net (1000 + 1 / 10), Tick 1001 reading1 (1001 + 1 / 10)] monitor0 world0 =
     Some (Inl (AttributeError, after (collect_data True monitor0 reading_no_net),
                world0\<lparr>console := [Starting]\<rparr>))"
proof -
  have raise: "collect_data True monitor0 reading_no_net =
     Inl (AttributeError,
          monitor0\<lparr>timestamps := [1], cpu_percent := [25], memory_percent := [50],
            disk_read := [10], disk_write := [2],
            last_disk := Some \<lparr>read_bytes = 30 * MiB, write_bytes = 22 * MiB\<rparr>\<rparr>)"
    by (simp add: collect_defs example_defs)
  have d: "duration monitor0 = 120"
    by (simp add: monitor0_def init_def)
  have partial: "\<not> series_lengths (after (collect_data True monitor0 reading_no_net)) 1"
    unfolding raise by (simp add: after_def series_lengths_def monitor0_def init_def)
  have "start True working_build 1000
     [Tick 1000 reading_no_net (1000 + 1 / 10), Tick 1001 reading1 (1001 + 1 / 10)] monitor0 world0 =
     Some (Inl (AttributeError, after (collect_data True monitor0 reading_no_net),
                world0\<lparr>console := [Starting]\<rparr>))"
    by (simp add: start_def d raise after_def world0_def)
  with raise partial show ?thesis by simp
qed

end
